theory Spec2Isabelle
  imports Complex_Main
begin

section \<open>Values shared by the models\<close>

text \<open>
  A JavaScript \<^verbatim>\<open>Date\<close> is represented by its time value: the number of milliseconds
  since 1970-01-01T00:00:00Z. Every \<^verbatim>\<open>new Date()\<close> of the source is a reading of the
  clock; each reading is an explicit argument of the function that makes it, in the order
  of the source, so two readings inside one method may differ.
\<close>

type_synonym time = int

text \<open>Values of the JSON columns, with the truthiness test of JavaScript.\<close>

datatype json =
    JNull
  | JBool bool
  | JNum rat
  | JStr string
  | JArr "json list"
  | JObj "(string \<times> json) list"

fun truthy :: "json \<Rightarrow> bool" where
  "truthy JNull = False"
| "truthy (JBool b) = b"
| "truthy (JNum n) = (n \<noteq> 0)"
| "truthy (JStr s) = (s \<noteq> [])"
| "truthy (JArr xs) = True"
| "truthy (JObj kvs) = True"

text \<open>A nullable string is falsy when it is null or empty.\<close>

fun truthy_str :: "string option \<Rightarrow> bool" where
  "truthy_str None = False"
| "truthy_str (Some s) = (s \<noteq> [])"

section \<open>Date arithmetic of the runtime\<close>

text \<open>
  The calendar functions behind \<^verbatim>\<open>getFullYear\<close>, \<^verbatim>\<open>getMonth\<close> and
  \<^verbatim>\<open>new Date(year, month, day)\<close>, in the proleptic Gregorian calendar. The local time
  zone of the process is taken to be UTC. Months are numbered from 0, as in JavaScript.
\<close>

definition msPerDay :: int where
  "msPerDay = 1000 * 60 * 60 * 24"

definition Day :: "time \<Rightarrow> int" where
  "Day t = t div msPerDay"

text \<open>Year, month (0 to 11) and day of the month (1 to 31) of a day number.\<close>

definition civil_of_day :: "int \<Rightarrow> int \<times> int \<times> int" where
  "civil_of_day z =
     (let s = z + 719468;
          cyc = s div 146097;
          dc = s mod 146097;
          yc = (dc - dc div 1460 + dc div 36524 - dc div 146096) div 365;
          dy = dc - (365 * yc + yc div 4 - yc div 100);
          mq = (5 * dy + 2) div 153;
          dm = dy - (153 * mq + 2) div 5 + 1;
          mon = (if mq < 10 then mq + 2 else mq - 10);
          yr = yc + cyc * 400 + (if mon \<le> 1 then 1 else 0)
      in (yr, mon, dm))"

definition YearFromTime :: "time \<Rightarrow> int" where
  "YearFromTime t = fst (civil_of_day (Day t))"

definition MonthFromTime :: "time \<Rightarrow> int" where
  "MonthFromTime t = fst (snd (civil_of_day (Day t)))"

definition DateFromTime :: "time \<Rightarrow> int" where
  "DateFromTime t = snd (snd (civil_of_day (Day t)))"

text \<open>
  \<^verbatim>\<open>MakeDay\<close>: the day number of day \<open>date\<close> of month \<open>month\<close> of \<open>year\<close>. A month outside
  0 to 11 carries into the year, and a day outside the month carries into the neighbouring
  month, so day 0 is the last day of the month before.
\<close>

definition MakeDay :: "int \<Rightarrow> int \<Rightarrow> int \<Rightarrow> int" where
  "MakeDay year month date =
     (let ym = year + month div 12;
          mn = month mod 12;
          yy = (if mn \<le> 1 then ym - 1 else ym);
          cyc = yy div 400;
          yc = yy mod 400;
          mq = (if mn \<le> 1 then mn + 10 else mn - 2);
          dy = (153 * mq + 2) div 5;
          dc = yc * 365 + yc div 4 - yc div 100 + dy
      in cyc * 146097 + dc - 719468 + (date - 1))"

definition getFullYear :: "time \<Rightarrow> int" where
  "getFullYear t = YearFromTime t"

definition getMonth :: "time \<Rightarrow> int" where
  "getMonth t = MonthFromTime t"

text \<open>\<^verbatim>\<open>new Date(year, month, day)\<close>: midnight at the start of that day.\<close>

definition Date_ymd :: "int \<Rightarrow> int \<Rightarrow> int \<Rightarrow> time" where
  "Date_ymd year month date = MakeDay year month date * msPerDay"

section \<open>Strings of the runtime\<close>

text \<open>\<^verbatim>\<open>String(n)\<close> for an integer \<open>n\<close>: its decimal digits, with a minus sign when negative.\<close>

fun digits :: "nat \<Rightarrow> string" where
  "digits n = (if n < 10 then [''0123456789'' ! n]
               else digits (n div 10) @ [''0123456789'' ! (n mod 10)])"

declare digits.simps [simp del]

definition String_of :: "int \<Rightarrow> string" where
  "String_of i = (if i < 0 then CHR ''-'' # digits (nat (- i)) else digits (nat i))"

text \<open>
  \<^verbatim>\<open>s.padStart(n, c)\<close> with a one-character filler: a string shorter than \<open>n\<close> is
  filled on the left, a longer one is returned as it is (nothing is cut).
\<close>

definition padStart :: "nat \<Rightarrow> char \<Rightarrow> string \<Rightarrow> string" where
  "padStart n c s = replicate (n - length s) c @ s"

section \<open>Payment (src/backend/models/Payment.js)\<close>

datatype payment_method =
  credit_card | debit_card | bank_transfer | paypal | stripe | cash | waiver | dev_mode

datatype payment_status =
  P_pending | P_processing | P_completed | P_failed | P_refunded | P_cancelled

datatype environment = Env_dev | Env_prod

text \<open>
  The attributes of the model. Money columns (\<^verbatim>\<open>DECIMAL(10, 2)\<close>) are rational numbers,
  nullable columns are options, \<^verbatim>\<open>createdAt\<close> is the timestamp the ORM stamps on insert.
\<close>

record payment =
  id :: string
  studentId :: string
  sessionId :: "string option"
  amount :: rat
  currency :: string
  paymentMethod :: payment_method
  status :: payment_status
  transactionId :: "string option"
  gatewayResponse :: json
  description :: "string option"
  dueDate :: "time option"
  paidAt :: "time option"
  refundedAt :: "time option"
  refundAmount :: "rat option"
  refundReason :: "string option"
  invoiceNumber :: "string option"
  receiptUrl :: "string option"
  metadata :: json
  environment :: environment
  createdAt :: "time option"

definition isCompleted :: "payment \<Rightarrow> bool" where
  "isCompleted p = (payment.status p = P_completed)"

definition isPending :: "payment \<Rightarrow> bool" where
  "isPending p = (payment.status p = P_pending)"

definition isFailed :: "payment \<Rightarrow> bool" where
  "isFailed p = (payment.status p = P_failed)"

definition isRefunded :: "payment \<Rightarrow> bool" where
  "isRefunded p = (payment.status p = P_refunded)"

text \<open>\<open>now\<close> is the clock reading of the comparison.\<close>

definition isOverdue :: "time \<Rightarrow> payment \<Rightarrow> bool" where
  "isOverdue now p =
     (case dueDate p of
        None \<Rightarrow> False
      | Some due \<Rightarrow> if isCompleted p then False else now > due)"

text \<open>
  \<open>now1\<close> is the clock reading inside the call of \<open>isOverdue\<close>, \<open>now2\<close> the reading
  that follows it. The difference of two time values is an integer number of milliseconds;
  the quotient and its ceiling are taken in the reals (for time values of real dates the
  floating-point quotient has the same ceiling).
\<close>

definition getDaysOverdue :: "time \<Rightarrow> time \<Rightarrow> payment \<Rightarrow> int" where
  "getDaysOverdue now1 now2 p =
     (if \<not> isOverdue now1 p then 0
      else let now = now2;
               due = (case dueDate p of None \<Rightarrow> 0 | Some d \<Rightarrow> d)
           in \<lceil>real_of_int (now - due) / (1000 * 60 * 60 * 24)\<rceil>)"

definition markAsCompleted :: "time \<Rightarrow> string option \<Rightarrow> json \<Rightarrow> payment \<Rightarrow> payment" where
  "markAsCompleted now transactionId' gatewayResponse' p =
     (let p = p\<lparr>payment.status := P_completed\<rparr>;
          p = p\<lparr>paidAt := Some now\<rparr>;
          p = (if truthy_str transactionId' then p\<lparr>transactionId := transactionId'\<rparr> else p);
          p = (if truthy gatewayResponse' then p\<lparr>gatewayResponse := gatewayResponse'\<rparr> else p)
      in p)"

definition markAsFailed :: "json \<Rightarrow> payment \<Rightarrow> payment" where
  "markAsFailed gatewayResponse' p =
     (let p = p\<lparr>payment.status := P_failed\<rparr>;
          p = (if truthy gatewayResponse' then p\<lparr>gatewayResponse := gatewayResponse'\<rparr> else p)
      in p)"

definition refund :: "time \<Rightarrow> rat \<Rightarrow> string option \<Rightarrow> payment \<Rightarrow> payment" where
  "refund now amount' reason p =
     p\<lparr>payment.status := P_refunded,
       refundAmount := Some amount',
       refundReason := reason,
       refundedAt := Some now\<rparr>"

text \<open>
  \<^verbatim>\<open>Payment.count\<close> with \<^verbatim>\<open>createdAt BETWEEN lo AND hi\<close> (both ends included) over
  the rows of the table.
\<close>

definition count_createdAt_between :: "payment list \<Rightarrow> time \<Rightarrow> time \<Rightarrow> nat" where
  "count_createdAt_between tbl lo hi =
     length (filter (\<lambda>q. case createdAt q of None \<Rightarrow> False | Some c \<Rightarrow> lo \<le> c \<and> c \<le> hi) tbl)"

text \<open>
  The \<^verbatim>\<open>beforeCreate\<close> hook. \<open>env\<close> is \<^verbatim>\<open>process.env.ENVIRONMENT\<close>, \<open>now_paid\<close> the
  clock reading for \<open>paidAt\<close>, \<open>date\<close> the reading for the invoice number, \<open>tbl\<close> the rows
  of the payments table when the count runs.
\<close>

definition beforeCreate ::
    "string option \<Rightarrow> time \<Rightarrow> time \<Rightarrow> payment list \<Rightarrow> payment \<Rightarrow> payment" where
  "beforeCreate env now_paid date tbl payment =
     (let payment =
            (if env = Some ''dev''
             then payment\<lparr>payment.status := P_completed,
                          paidAt := Some now_paid,
                          paymentMethod := dev_mode,
                          amount := 0,
                          environment := Env_dev\<rparr>
             else payment)
      in if \<not> truthy_str (invoiceNumber payment)
         then let year = getFullYear date;
                  month = padStart 2 CHR ''0'' (String_of (getMonth date + 1));
                  count = count_createdAt_between tbl
                            (Date_ymd (getFullYear date) (getMonth date) 1)
                            (Date_ymd (getFullYear date) (getMonth date + 1) 0)
              in payment\<lparr>invoiceNumber :=
                   Some (''INV-'' @ String_of year @ month @ ''-''
                         @ padStart 4 CHR ''0'' (String_of (int count + 1)))\<rparr>
         else payment)"

text \<open>
  \<^verbatim>\<open>Payment.create\<close>: the hook runs, the row is stamped with \<open>createdAt\<close> and inserted;
  \<open>invoiceNumber\<close> is declared \<^verbatim>\<open>unique: true\<close>, so a row whose number is already in
  the table is refused.
\<close>

datatype db_error = UniqueConstraintError

definition Payment_create ::
    "string option \<Rightarrow> time \<Rightarrow> time \<Rightarrow> time \<Rightarrow> payment list \<Rightarrow> payment
       \<Rightarrow> db_error + (payment list \<times> payment)" where
  "Payment_create env now_paid date now_ins tbl payment =
     (let row = (beforeCreate env now_paid date tbl payment)\<lparr>createdAt := Some now_ins\<rparr>
      in if invoiceNumber row \<noteq> None \<and> invoiceNumber row \<in> set (map invoiceNumber tbl)
         then Inl UniqueConstraintError
         else Inr (tbl @ [row], row))"

section \<open>Session (src/backend/models/Session.js)\<close>

datatype session_status =
  S_scheduled | S_ongoing | S_completed | S_cancelled | S_rescheduled

datatype session_type = one_on_one | group | workshop | assessment

datatype recurring_pattern = daily | weekly | monthly

record session =
  id :: string
  title :: string
  description :: "string option"
  topic :: string
  startTime :: time
  endTime :: time
  duration :: int
  status :: session_status
  sessionType :: session_type
  maxStudents :: int
  currentStudents :: int
  location :: "string option"
  meetingLink :: "string option"
  materials :: json
  "notes" :: "string option"
  price :: rat
  currency :: string
  isRecurring :: bool
  recurringPattern :: "recurring_pattern option"
  recurringEndDate :: "time option"
  tags :: json
  metadata :: json

definition isFull :: "session \<Rightarrow> bool" where
  "isFull s = (currentStudents s \<ge> maxStudents s)"

definition canJoin :: "session \<Rightarrow> bool" where
  "canJoin s = (session.status s = S_scheduled \<and> \<not> isFull s)"

section \<open>Attendance (src/unnamed/part_002)\<close>

datatype attendance_status = A_present | A_absent | A_late | A_excused | A_pending

record attendance =
  id :: string
  sessionId :: string
  studentId :: string
  status :: attendance_status
  checkInTime :: "time option"
  checkOutTime :: "time option"
  duration :: "int option"
  "notes" :: "string option"
  markedBy :: "string option"
  markedAt :: "time option"
  reason :: "string option"
  evidence :: json
  metadata :: json

text \<open>
  Each of the three methods below reads the clock where the source writes
  \<^verbatim>\<open>new Date()\<close>: \<open>now_in\<close> is the reading stored in \<open>checkInTime\<close>, \<open>now_mark\<close> the
  later reading stored in \<open>markedAt\<close>. The caller's \<open>markedBy\<close> is stored as it is given.
\<close>

definition markPresent :: "time \<Rightarrow> time \<Rightarrow> string option \<Rightarrow> attendance \<Rightarrow> attendance" where
  "markPresent now_in now_mark markedBy' a =
     a\<lparr>attendance.status := A_present,
       checkInTime := Some now_in,
       markedBy := markedBy',
       markedAt := Some now_mark\<rparr>"

definition markAbsent :: "time \<Rightarrow> string option \<Rightarrow> string option \<Rightarrow> attendance \<Rightarrow> attendance" where
  "markAbsent now_mark markedBy' reason' a =
     a\<lparr>attendance.status := A_absent,
       reason := reason',
       markedBy := markedBy',
       markedAt := Some now_mark\<rparr>"

definition markLate :: "time \<Rightarrow> time \<Rightarrow> string option \<Rightarrow> attendance \<Rightarrow> attendance" where
  "markLate now_in now_mark markedBy' a =
     a\<lparr>attendance.status := A_late,
       checkInTime := Some now_in,
       markedBy := markedBy',
       markedAt := Some now_mark\<rparr>"

section \<open>Error handler (src/unnamed/part_004)\<close>

text \<open>One entry of the \<^verbatim>\<open>errors\<close> array of an ORM validation error.\<close>

record validation_item =
  path :: "string option"
  message :: string
  "value" :: json

text \<open>
  The error object handed to the middleware, with the properties the handler reads.
  \<open>statusCode\<close> and \<open>errors\<close> are own enumerable properties when present, so the object
  spread copies them; \<open>fields_keys\<close> holds the keys of \<^verbatim>\<open>err.fields\<close> in their order.
\<close>

record js_error =
  name :: string
  message :: "string option"
  stack :: "string option"
  code :: "string option"
  status :: "int option"
  statusCode :: "int option"
  errors :: "validation_item list option"
  fields_keys :: "string list option"

text \<open>The local object \<^verbatim>\<open>error\<close> that the handler builds.\<close>

record error_object =
  statusCode :: "int option"
  message :: "string option"
  errors :: "validation_item list option"
  field :: "string option"

record request =
  url :: string
  originalUrl :: string
  "method" :: string
  ip :: string

text \<open>The HTTP status and the JSON body passed to \<^verbatim>\<open>res.status(...).json(...)\<close>.\<close>

record response =
  http_status :: int
  success :: bool
  message :: string
  stack :: "string option"
  details :: "error_object option"
  errors :: "validation_item list option"
  timestamp :: time
  path :: string
  "method" :: string

datatype js_exception = TypeError

text \<open>\<^verbatim>\<open>xs.join(sep)\<close> on an array of strings.\<close>

fun join :: "string \<Rightarrow> string list \<Rightarrow> string" where
  "join sep [] = []"
| "join sep [x] = x"
| "join sep (x # y # ys) = x @ sep @ join sep (y # ys)"

text \<open>\<open>a || b\<close> on a status code and on a message: 0, the empty string and absence are falsy.\<close>

fun or_code :: "int option \<Rightarrow> int \<Rightarrow> int" where
  "or_code None d = d"
| "or_code (Some c) d = (if c = 0 then d else c)"

fun or_message :: "string option \<Rightarrow> string \<Rightarrow> string" where
  "or_message None d = d"
| "or_message (Some m) d = (if m = [] then d else m)"

text \<open>
  The entry built for the response from an entry of \<^verbatim>\<open>err.errors\<close>: its \<open>path\<close> (sent
  under the key \<^verbatim>\<open>field\<close>), \<open>message\<close> and \<open>value\<close>, and nothing else.
\<close>

definition item_view :: "validation_item \<Rightarrow> validation_item" where
  "item_view val = \<lparr>validation_item.path = validation_item.path val,
                    validation_item.message = validation_item.message val,
                    validation_item.value = validation_item.value val\<rparr>"

text \<open>
  \<open>node_env\<close> is \<^verbatim>\<open>process.env.NODE_ENV\<close> and \<open>now\<close> the clock reading of the response's
  timestamp. The two branches that read \<^verbatim>\<open>err.errors\<close> throw a \<^verbatim>\<open>TypeError\<close> when
  that property is absent; the checks are not exclusive and run in the order of the source,
  a later match replacing the object built by an earlier one.
\<close>

definition errorHandler ::
    "js_error \<Rightarrow> request \<Rightarrow> string option \<Rightarrow> time \<Rightarrow> js_exception + response" where
  "errorHandler err req node_env now =
     (if (js_error.name err = ''SequelizeValidationError''
          \<or> js_error.name err = ''SequelizeUniqueConstraintError'')
         \<and> js_error.errors err = None
      then Inl TypeError
      else
       let error = \<lparr>error_object.statusCode = js_error.statusCode err,
                    error_object.message = js_error.message err,
                    error_object.errors = js_error.errors err,
                    field = None\<rparr>;
           error = (if js_error.name err = ''SequelizeValidationError''
                    then let message = join '', ''
                               (map validation_item.message (the (js_error.errors err)))
                         in \<lparr>error_object.statusCode = Some 400,
                             error_object.message = Some (''Validation Error: '' @ message),
                             error_object.errors = Some (map item_view (the (js_error.errors err))),
                             field = None\<rparr>
                    else error);
           error = (if js_error.name err = ''SequelizeUniqueConstraintError''
                    then let message = join '', ''
                               (map validation_item.message (the (js_error.errors err)))
                         in \<lparr>error_object.statusCode = Some 409,
                             error_object.message = Some (''Duplicate Error: '' @ message),
                             error_object.errors = Some (map item_view (the (js_error.errors err))),
                             field = None\<rparr>
                    else error);
           error = (if js_error.name err = ''SequelizeForeignKeyConstraintError''
                    then \<lparr>error_object.statusCode = Some 400,
                          error_object.message = Some ''Referenced record does not exist'',
                          error_object.errors = None,
                          field = (case fields_keys err of
                                     None \<Rightarrow> Some ''unknown''
                                   | Some ks \<Rightarrow> (case ks of [] \<Rightarrow> None | k # _ \<Rightarrow> Some k))\<rparr>
                    else error);
           error = (if js_error.name err = ''JsonWebTokenError''
                    then \<lparr>error_object.statusCode = Some 401, error_object.message = Some ''Invalid token'',
                          error_object.errors = None, field = None\<rparr>
                    else error);
           error = (if js_error.name err = ''TokenExpiredError''
                    then \<lparr>error_object.statusCode = Some 401, error_object.message = Some ''Token expired'',
                          error_object.errors = None, field = None\<rparr>
                    else error);
           error = (if js_error.code err = Some ''LIMIT_FILE_SIZE''
                    then \<lparr>error_object.statusCode = Some 400, error_object.message = Some ''File size too large'',
                          error_object.errors = None, field = None\<rparr>
                    else error);
           error = (if js_error.code err = Some ''LIMIT_UNEXPECTED_FILE''
                    then \<lparr>error_object.statusCode = Some 400, error_object.message = Some ''Unexpected file field'',
                          error_object.errors = None, field = None\<rparr>
                    else error);
           error = (if js_error.status err = Some 429
                    then \<lparr>error_object.statusCode = Some 429,
                          error_object.message = Some ''Too many requests, please try again later'',
                          error_object.errors = None, field = None\<rparr>
                    else error);
           error = (if js_error.name err = ''CastError''
                    then \<lparr>error_object.statusCode = Some 400, error_object.message = Some ''Invalid ID format'',
                          error_object.errors = None, field = None\<rparr>
                    else error);
           statusCode = or_code (error_object.statusCode error) 500;
           message = or_message (error_object.message error) ''Internal Server Error'';
           isDevelopment = (node_env = Some ''development'')
       in Inr \<lparr>http_status = statusCode,
                success = False,
                message = message,
                stack = (if isDevelopment then js_error.stack err else None),
                details = (if isDevelopment then Some error else None),
                errors = error_object.errors error,
                timestamp = now,
                path = originalUrl req,
                method = request.method req\<rparr>)"

section \<open>Notions of the specification\<close>

text \<open>
  The invariant the specification states for refunds: a refunded payment has
  \<open>refundAmount \<le> amount\<close>.
\<close>

definition refund_within_amount :: "payment \<Rightarrow> bool" where
  "refund_within_amount p =
     (payment.status p = P_refunded \<longrightarrow>
        (case refundAmount p of None \<Rightarrow> True | Some r \<Rightarrow> r \<le> amount p))"

text \<open>
  A sequence of calls of \<open>markAsCompleted\<close> on one payment, each with its own clock reading
  and arguments, the first call first.
\<close>

fun markAsCompleted_calls :: "(time \<times> string option \<times> json) list \<Rightarrow> payment \<Rightarrow> payment" where
  "markAsCompleted_calls [] p = p"
| "markAsCompleted_calls ((now, tid, gw) # calls) p =
     markAsCompleted_calls calls (markAsCompleted now tid gw p)"

text \<open>
  The checks of the error handler that come after the checks of the ORM and token names
  and replace their result: the two upload codes and the rate-limit status.
\<close>

definition later_check_matches :: "js_error \<Rightarrow> bool" where
  "later_check_matches err =
     (js_error.code err = Some ''LIMIT_FILE_SIZE''
      \<or> js_error.code err = Some ''LIMIT_UNEXPECTED_FILE''
      \<or> js_error.status err = Some 429)"

section \<open>Concrete records\<close>

text \<open>A pending payment of 100.00 due on 2024-01-01T00:00:00Z.\<close>

definition sample_payment :: payment where
  "sample_payment =
     \<lparr>payment.id = ''p-1'', payment.studentId = ''u-1'', payment.sessionId = None,
      amount = 100, payment.currency = ''USD'', paymentMethod = credit_card,
      payment.status = P_pending, transactionId = None, gatewayResponse = JNull,
      payment.description = None, dueDate = Some 1704067200000, paidAt = None,
      refundedAt = None, refundAmount = None, refundReason = None,
      invoiceNumber = None, receiptUrl = None, payment.metadata = JObj [],
      environment = Env_prod, createdAt = None\<rparr>"

text \<open>A scheduled one-to-one session that already has its one student.\<close>

definition sample_session :: session where
  "sample_session =
     \<lparr>session.id = ''s-1'', title = ''Algebra'', session.description = None, topic = ''Maths'',
      startTime = 1704186000000, endTime = 1704189600000, session.duration = 60,
      session.status = S_scheduled, sessionType = one_on_one, maxStudents = 1,
      currentStudents = 1, location = None, meetingLink = None, materials = JArr [],
      session.notes = None, price = 0, session.currency = ''USD'', isRecurring = False,
      recurringPattern = None, recurringEndDate = None, tags = JArr [],
      session.metadata = JObj []\<rparr>"

text \<open>
  The row left in an empty table by a creation at 10:00:00Z on 2024-01-31, the last day of the
  month, and the row left by a creation at 10:00:00Z on 2024-01-30.
\<close>

definition jan31_first_row :: payment where
  "jan31_first_row =
     sample_payment\<lparr>invoiceNumber := Some ''INV-202401-0001'', createdAt := Some 1706695200000\<rparr>"

definition jan30_first_row :: payment where
  "jan30_first_row =
     sample_payment\<lparr>invoiceNumber := Some ''INV-202401-0001'', createdAt := Some 1706608800000\<rparr>"

text \<open>A request, and three errors: a cast error, a unique-constraint error of the ORM and a plain error.\<close>

definition sample_request :: request where
  "sample_request = \<lparr>url = ''/api/payments'', originalUrl = ''/api/payments'',
                       request.method = ''POST'', ip = ''127.0.0.1''\<rparr>"

definition cast_error :: js_error where
  "cast_error =
     \<lparr>js_error.name = ''CastError'', js_error.message = Some ''Cast to ObjectId failed'',
      js_error.stack = None, code = None, js_error.status = None,
      js_error.statusCode = None, js_error.errors = None, fields_keys = None\<rparr>"

definition unique_error :: js_error where
  "unique_error =
     \<lparr>js_error.name = ''SequelizeUniqueConstraintError'',
      js_error.message = Some ''Validation error'',
      js_error.stack = None, code = None, js_error.status = None,
      js_error.statusCode = None,
      js_error.errors = Some [\<lparr>validation_item.path = Some ''invoiceNumber'',
                                validation_item.message = ''invoiceNumber must be unique'',
                                validation_item.value = JStr ''INV-202401-0001''\<rparr>],
      fields_keys = Some [''invoiceNumber'']\<rparr>"

definition plain_error :: js_error where
  "plain_error =
     \<lparr>js_error.name = ''Error'', js_error.message = Some ''connection lost'',
      js_error.stack = None, code = None, js_error.status = None,
      js_error.statusCode = None, js_error.errors = None, fields_keys = None\<rparr>"

section \<open>Overdue payments\<close>

text \<open>
  Claim C1. For every payment, \<open>isOverdue\<close> returns true if and only if the status is not
  \<open>completed\<close> and the clock reading is strictly after the due date. A payment without a
  due date has no date to be after, and \<open>isOverdue\<close> is false for it.
\<close>

theorem C1_isOverdue_iff:
  "isOverdue now p \<longleftrightarrow>
     payment.status p \<noteq> P_completed \<and> (\<exists>due. dueDate p = Some due \<and> due < now)"
  by (auto simp: isOverdue_def isCompleted_def split: option.splits)

text \<open>
  At 2024-01-02T09:00:00Z the pending sample payment is overdue; the same payment with
  status \<open>completed\<close> is not.
\<close>

theorem C1_isOverdue_iff_witness:
  "isOverdue 1704186000000 sample_payment
   \<and> payment.status sample_payment \<noteq> P_completed
   \<and> dueDate sample_payment = Some 1704067200000
   \<and> \<not> isOverdue 1704186000000 (sample_payment\<lparr>payment.status := P_completed\<rparr>)"
  using C1_isOverdue_iff [of 1704186000000 sample_payment]
        C1_isOverdue_iff [of 1704186000000 "sample_payment\<lparr>payment.status := P_completed\<rparr>"]
  by (simp add: sample_payment_def)

text \<open>
  Claim C10. For every payment whose due date is unset, \<open>isOverdue\<close> returns false and
  \<open>getDaysOverdue\<close> returns 0, for every status and all clock readings.
\<close>

theorem C10_no_dueDate:
  "dueDate p = None \<Longrightarrow> \<not> isOverdue now p \<and> getDaysOverdue now1 now2 p = 0"
  by (simp add: isOverdue_def getDaysOverdue_def)

theorem C10_no_dueDate_witness:
  "dueDate (sample_payment\<lparr>dueDate := None\<rparr>) = None
   \<and> \<not> isOverdue 1704186000000 (sample_payment\<lparr>dueDate := None\<rparr>)
   \<and> getDaysOverdue 1704186000000 1704186000001 (sample_payment\<lparr>dueDate := None\<rparr>) = 0"
  using C10_no_dueDate
          [of "sample_payment\<lparr>dueDate := None\<rparr>" 1704186000000 1704186000000 1704186000001]
  by simp

lemma ceiling_one_day:
  fixes ms :: int
  assumes "0 < ms" "ms \<le> 86400000"
  shows "\<lceil>real_of_int ms / 86400000\<rceil> = 1"
proof -
  have "0 < real_of_int ms / 86400000"
    using assms by simp
  moreover have "real_of_int ms / 86400000 \<le> 1"
    using assms by simp
  ultimately show ?thesis
    by (simp add: ceiling_eq_iff)
qed

text \<open>
  Claim C5, as the code has it. \<open>getDaysOverdue\<close> returns the ceiling of
  \<open>(now - dueDate) / 86400000\<close> when \<open>isOverdue\<close> is true and 0 when it is false. A pending
  payment that fell due at most 86400000 ms before the clock readings, and strictly before
  them, gives 1.
\<close>

theorem C5_getDaysOverdue:
  "(isOverdue now1 p \<longrightarrow>
      (\<exists>due. dueDate p = Some due
         \<and> getDaysOverdue now1 now2 p = \<lceil>real_of_int (now2 - due) / 86400000\<rceil>))
   \<and> (\<not> isOverdue now1 p \<longrightarrow> getDaysOverdue now1 now2 p = 0)
   \<and> (payment.status p = P_pending \<longrightarrow> dueDate p = Some d \<longrightarrow> d < now1 \<longrightarrow> now1 \<le> now2
        \<longrightarrow> now2 - d \<le> 86400000 \<longrightarrow> getDaysOverdue now1 now2 p = 1)"
proof (intro conjI impI)
  assume "isOverdue now1 p"
  then show "\<exists>due. dueDate p = Some due
         \<and> getDaysOverdue now1 now2 p = \<lceil>real_of_int (now2 - due) / 86400000\<rceil>"
    by (auto simp: getDaysOverdue_def isOverdue_def split: option.splits)
next
  assume "\<not> isOverdue now1 p"
  then show "getDaysOverdue now1 now2 p = 0"
    by (simp add: getDaysOverdue_def)
next
  assume a: "payment.status p = P_pending" "dueDate p = Some d" "d < now1" "now1 \<le> now2"
    "now2 - d \<le> 86400000"
  then have ov: "isOverdue now1 p"
    by (simp add: isOverdue_def isCompleted_def)
  have "\<lceil>real_of_int (now2 - d) / 86400000\<rceil> = 1"
    using a by (intro ceiling_one_day) auto
  with ov a show "getDaysOverdue now1 now2 p = 1"
    by (simp add: getDaysOverdue_def)
qed

text \<open>
  The sample payment, due 2024-01-01T00:00:00Z: read at 2024-01-02T09:00:00Z it is two days
  overdue, read at the due instant it is not overdue, read exactly 24 hours after it is one
  day overdue.
\<close>

theorem C5_getDaysOverdue_witness:
  "isOverdue 1704186000000 sample_payment
   \<and> getDaysOverdue 1704186000000 1704186000000 sample_payment = 2
   \<and> \<not> isOverdue 1704067200000 sample_payment
   \<and> getDaysOverdue 1704067200000 1704067200000 sample_payment = 0
   \<and> payment.status sample_payment = P_pending
   \<and> getDaysOverdue 1704153600000 1704153600000 sample_payment = 1"
  using C5_getDaysOverdue [of 1704186000000 sample_payment 1704186000000 1704067200000]
        C5_getDaysOverdue [of 1704067200000 sample_payment 1704067200000 1704067200000]
        C5_getDaysOverdue [of 1704153600000 sample_payment 1704153600000 1704067200000]
  by (simp add: sample_payment_def isOverdue_def isCompleted_def)

text \<open>
  The claim's example fails: on 2024-01-02 at 09:00:00Z the due date of the pending sample
  payment, the start of 2024-01-01, was yesterday (its day number is one less than
  today's), and \<open>getDaysOverdue\<close> returns 2, not 1.
\<close>

theorem C5_yesterday_counterexample:
  "payment.status sample_payment = P_pending
   \<and> dueDate sample_payment = Some (Date_ymd 2024 0 1)
   \<and> Day 1704186000000 = Day (Date_ymd 2024 0 1) + 1
   \<and> isOverdue 1704186000000 sample_payment
   \<and> getDaysOverdue 1704186000000 1704186000000 sample_payment = 2
   \<and> getDaysOverdue 1704186000000 1704186000000 sample_payment \<noteq> 1"
  by (simp add: sample_payment_def isOverdue_def isCompleted_def getDaysOverdue_def
      Date_ymd_def MakeDay_def Day_def msPerDay_def)

section \<open>Refunds\<close>

text \<open>
  Claim C2 fails on the code: a refund of 150.00 on the sample payment of 100.00 is stored
  as it is given, and the refunded record has \<open>refundAmount > amount\<close>.
\<close>

theorem C2_refund_counterexample:
  "payment.status (refund 1704186000000 150 (Some ''duplicate charge'') sample_payment)
     = P_refunded
   \<and> refundAmount (refund 1704186000000 150 (Some ''duplicate charge'') sample_payment)
     = Some 150
   \<and> amount (refund 1704186000000 150 (Some ''duplicate charge'') sample_payment) = 100
   \<and> \<not> refund_within_amount
         (refund 1704186000000 150 (Some ''duplicate charge'') sample_payment)"
  by (simp add: refund_def refund_within_amount_def sample_payment_def)

text \<open>
  Claim C2, as the code has it. After \<open>refund\<close> with amount \<open>a\<close> the record has status
  \<open>refunded\<close>, \<open>refundAmount = a\<close>, the given reason, the clock reading as \<open>refundedAt\<close> and
  its old \<open>amount\<close>; so it satisfies \<open>refundAmount \<le> amount\<close> exactly when \<open>a\<close> is at
  most the payment's amount.
\<close>

theorem C2_refund_stores_argument:
  "payment.status (refund now a why p) = P_refunded
   \<and> refundAmount (refund now a why p) = Some a
   \<and> refundReason (refund now a why p) = why
   \<and> refundedAt (refund now a why p) = Some now
   \<and> amount (refund now a why p) = amount p
   \<and> (refund_within_amount (refund now a why p) \<longleftrightarrow> a \<le> amount p)"
  by (simp add: refund_def refund_within_amount_def)

theorem C2_refund_stores_argument_witness:
  "refund_within_amount (refund 1704186000000 40 None sample_payment)
   \<and> refundAmount (refund 1704186000000 40 None sample_payment) = Some 40
   \<and> amount sample_payment = 100"
  using C2_refund_stores_argument [of 1704186000000 40 None sample_payment]
  by (simp add: sample_payment_def)

section \<open>Joining a session\<close>

text \<open>
  Claim C4. For every session, \<open>canJoin\<close> returns true if and only if the status is
  \<open>scheduled\<close> and \<open>currentStudents < maxStudents\<close>; with \<open>maxStudents = 1\<close> and
  \<open>currentStudents = 1\<close> it returns false.
\<close>

theorem C4_canJoin:
  "(canJoin s \<longleftrightarrow> session.status s = S_scheduled \<and> currentStudents s < maxStudents s)
   \<and> (maxStudents s = 1 \<longrightarrow> currentStudents s = 1 \<longrightarrow> \<not> canJoin s)"
  by (auto simp: canJoin_def isFull_def)

theorem C4_canJoin_witness:
  "maxStudents sample_session = 1 \<and> currentStudents sample_session = 1
   \<and> \<not> canJoin sample_session
   \<and> canJoin (sample_session\<lparr>currentStudents := 0\<rparr>)"
  using C4_canJoin [of sample_session] C4_canJoin [of "sample_session\<lparr>currentStudents := 0\<rparr>"]
  by (simp add: sample_session_def)

section \<open>Completing a payment\<close>

lemma markAsCompleted_status: "payment.status (markAsCompleted now tid gw p) = P_completed"
  by (simp add: markAsCompleted_def Let_def)

lemma markAsCompleted_paidAt: "paidAt (markAsCompleted now tid gw p) = Some now"
  by (simp add: markAsCompleted_def Let_def)

lemma markAsCompleted_calls_snoc:
  "markAsCompleted_calls (calls @ [(now, tid, gw)]) p =
     markAsCompleted now tid gw (markAsCompleted_calls calls p)"
  by (induction calls arbitrary: p) auto

text \<open>
  Claim C6. After one or more calls of \<open>markAsCompleted\<close>, with any arguments, the status is
  \<open>completed\<close> and \<open>paidAt\<close> is the clock reading of the latest call; for two calls in a
  row that is the reading of the second.
\<close>

theorem C6_markAsCompleted_repeated:
  assumes "calls \<noteq> []"
  shows "payment.status (markAsCompleted_calls calls p) = P_completed
         \<and> paidAt (markAsCompleted_calls calls p) = Some (fst (last calls))"
proof -
  from assms obtain cs c where "calls = cs @ [c]"
    by (metis append_butlast_last_id)
  moreover obtain now tid gw where "c = (now, tid, gw)"
    by (cases c) auto
  ultimately show ?thesis
    by (simp add: markAsCompleted_calls_snoc markAsCompleted_status markAsCompleted_paidAt)
qed

theorem C6_markAsCompleted_repeated_witness:
  "[(1704186000000, Some ''tx-1'', JNull), (1704186000500, None, JNull)] \<noteq> []
   \<and> payment.status (markAsCompleted_calls
        [(1704186000000, Some ''tx-1'', JNull), (1704186000500, None, JNull)] sample_payment)
       = P_completed
   \<and> paidAt (markAsCompleted_calls
        [(1704186000000, Some ''tx-1'', JNull), (1704186000500, None, JNull)] sample_payment)
       = Some 1704186000500"
  using C6_markAsCompleted_repeated
          [of "[(1704186000000, Some ''tx-1'', JNull), (1704186000500, None, JNull)]"
              sample_payment]
  by simp

section \<open>Creating a payment\<close>

text \<open>
  Claim C7. When the environment variable is \<open>dev\<close>, the record that leaves the
  \<open>beforeCreate\<close> hook, and with it the row that \<open>Payment_create\<close> inserts, has status
  \<open>completed\<close>, amount 0.00 and payment method \<open>dev_mode\<close>, whatever the caller supplied.
\<close>

theorem C7_dev_override:
  assumes "env = Some ''dev''"
  shows "payment.status (beforeCreate env now_paid date tbl payment) = P_completed
         \<and> amount (beforeCreate env now_paid date tbl payment) = 0
         \<and> paymentMethod (beforeCreate env now_paid date tbl payment) = dev_mode
         \<and> (Payment_create env now_paid date now_ins tbl payment = Inr (tbl', row) \<longrightarrow>
               payment.status row = P_completed \<and> amount row = 0 \<and> paymentMethod row = dev_mode)"
proof -
  have hook: "payment.status (beforeCreate env now_paid date tbl payment) = P_completed
         \<and> amount (beforeCreate env now_paid date tbl payment) = 0
         \<and> paymentMethod (beforeCreate env now_paid date tbl payment) = dev_mode"
    using assms by (simp add: beforeCreate_def Let_def)
  moreover have "Payment_create env now_paid date now_ins tbl payment = Inr (tbl', row) \<longrightarrow>
      row = (beforeCreate env now_paid date tbl payment)\<lparr>createdAt := Some now_ins\<rparr>"
    by (auto simp: Payment_create_def Let_def split: if_splits)
  ultimately show ?thesis
    by auto
qed

theorem C7_dev_override_witness:
  "Some ''dev'' = Some ''dev''
   \<and> payment.status (beforeCreate (Some ''dev'') 1704186000000 1704186000001 [] sample_payment)
       = P_completed
   \<and> amount (beforeCreate (Some ''dev'') 1704186000000 1704186000001 [] sample_payment) = 0
   \<and> paymentMethod (beforeCreate (Some ''dev'') 1704186000000 1704186000001 [] sample_payment)
       = dev_mode
   \<and> payment.status sample_payment = P_pending \<and> amount sample_payment = 100
   \<and> paymentMethod sample_payment = credit_card
   \<and> Payment_create (Some ''dev'') 1704186000000 1704186000001 1704186000002 [] sample_payment
       = Inr ([sample_payment\<lparr>payment.status := P_completed, paidAt := Some 1704186000000,
                 paymentMethod := dev_mode, amount := 0, environment := Env_dev,
                 invoiceNumber := Some ''INV-202401-0001'',
                 createdAt := Some 1704186000002\<rparr>],
              sample_payment\<lparr>payment.status := P_completed, paidAt := Some 1704186000000,
                 paymentMethod := dev_mode, amount := 0, environment := Env_dev,
                 invoiceNumber := Some ''INV-202401-0001'',
                 createdAt := Some 1704186000002\<rparr>)"
proof -
  have ev: "Payment_create (Some ''dev'') 1704186000000 1704186000001 1704186000002 []
              sample_payment
       = Inr ([sample_payment\<lparr>payment.status := P_completed, paidAt := Some 1704186000000,
                 paymentMethod := dev_mode, amount := 0, environment := Env_dev,
                 invoiceNumber := Some ''INV-202401-0001'',
                 createdAt := Some 1704186000002\<rparr>],
              sample_payment\<lparr>payment.status := P_completed, paidAt := Some 1704186000000,
                 paymentMethod := dev_mode, amount := 0, environment := Env_dev,
                 invoiceNumber := Some ''INV-202401-0001'',
                 createdAt := Some 1704186000002\<rparr>)"
    by code_simp
  show ?thesis
    using ev C7_dev_override [of "Some ''dev''" 1704186000000 1704186000001 "[]" sample_payment
                     1704186000002]
    by (simp add: sample_payment_def)
qed

text \<open>
  Claim C3, evaluated on the last day of a month. The upper end of the counted range,
  \<^verbatim>\<open>new Date(year, month + 1, 0)\<close>, is midnight at the start of the month's last day, so
  a payment created during that day is not counted. With one payment created at 10:00:00Z on
  2024-01-31 (numbered \<open>INV-202401-0001\<close>), a creation at 12:00:00Z the same day counts 0
  payments and generates \<open>INV-202401-0001\<close> again, which the unique index refuses. The same
  two creations one day earlier give \<open>INV-202401-0001\<close> and then \<open>INV-202401-0002\<close>.
\<close>

theorem C3_last_day_of_month_repeats:
  "Payment_create (Some ''prod'') 1706695200000 1706695200000 1706695200000 [] sample_payment
     = Inr ([jan31_first_row], jan31_first_row)
   \<and> getFullYear 1706702400000 = 2024 \<and> getMonth 1706702400000 = 0
   \<and> DateFromTime 1706702400000 = 31
   \<and> count_createdAt_between [jan31_first_row] (Date_ymd 2024 0 1) (Date_ymd 2024 1 0) = 0
   \<and> invoiceNumber (beforeCreate (Some ''prod'') 1706702400000 1706702400000
                       [jan31_first_row] sample_payment) = Some ''INV-202401-0001''
   \<and> Payment_create (Some ''prod'') 1706702400000 1706702400000 1706702400000
        [jan31_first_row] sample_payment = Inl UniqueConstraintError
   \<and> Payment_create (Some ''prod'') 1706608800000 1706608800000 1706608800000 [] sample_payment
     = Inr ([jan30_first_row], jan30_first_row)
   \<and> invoiceNumber (beforeCreate (Some ''prod'') 1706616000000 1706616000000
                       [jan30_first_row] sample_payment) = Some ''INV-202401-0002''"
  by code_simp

section \<open>Marking attendance\<close>

text \<open>
  Claim C8. \<open>markPresent\<close>, \<open>markAbsent\<close> and \<open>markLate\<close> each store the given \<open>markedBy\<close>
  and a clock reading as \<open>markedAt\<close>; \<open>markPresent\<close> and \<open>markLate\<close> store a clock reading
  as \<open>checkInTime\<close> and set the status to \<open>present\<close> and \<open>late\<close>; \<open>markAbsent\<close> sets the
  status to \<open>absent\<close>, stores the reason and leaves \<open>checkInTime\<close> as it was.
\<close>

theorem C8_attendance_marks:
  "attendance.status (markPresent now_in now_mark who a) = A_present
   \<and> checkInTime (markPresent now_in now_mark who a) = Some now_in
   \<and> markedBy (markPresent now_in now_mark who a) = who
   \<and> markedAt (markPresent now_in now_mark who a) = Some now_mark
   \<and> attendance.status (markLate now_in now_mark who a) = A_late
   \<and> checkInTime (markLate now_in now_mark who a) = Some now_in
   \<and> markedBy (markLate now_in now_mark who a) = who
   \<and> markedAt (markLate now_in now_mark who a) = Some now_mark
   \<and> attendance.status (markAbsent now_mark who why a) = A_absent
   \<and> reason (markAbsent now_mark who why a) = why
   \<and> markedBy (markAbsent now_mark who why a) = who
   \<and> markedAt (markAbsent now_mark who why a) = Some now_mark
   \<and> checkInTime (markAbsent now_mark who why a) = checkInTime a"
  by (simp add: markPresent_def markLate_def markAbsent_def)

section \<open>Translating errors to responses\<close>

lemma errorHandler_throws:
  "(js_error.name err = ''SequelizeValidationError''
    \<or> js_error.name err = ''SequelizeUniqueConstraintError'') \<and> js_error.errors err = None
   \<Longrightarrow> errorHandler err req node_env now = Inl TypeError"
  by (simp add: errorHandler_def)

lemma errorHandler_responds:
  "\<not> ((js_error.name err = ''SequelizeValidationError''
    \<or> js_error.name err = ''SequelizeUniqueConstraintError'') \<and> js_error.errors err = None)
   \<Longrightarrow> \<exists>r. errorHandler err req node_env now = Inr r"
  by (simp add: errorHandler_def Let_def)

lemma or_message_nonempty: "d \<noteq> [] \<Longrightarrow> or_message m d \<noteq> []"
  by (cases m) auto

lemma errorHandler_envelope:
  "errorHandler err req node_env now = Inr r \<Longrightarrow> success r = False \<and> response.message r \<noteq> []"
  by (auto simp: errorHandler_def Let_def or_message_nonempty split: if_splits)

lemma errorHandler_by_name:
  assumes "errorHandler err req node_env now = Inr r" "\<not> later_check_matches err"
  shows "(js_error.name err = ''SequelizeValidationError'' \<longrightarrow> http_status r = 400)
       \<and> (js_error.name err = ''SequelizeUniqueConstraintError'' \<longrightarrow> http_status r = 409)
       \<and> (js_error.name err = ''SequelizeForeignKeyConstraintError'' \<longrightarrow> http_status r = 400)
       \<and> (js_error.name err = ''JsonWebTokenError'' \<longrightarrow> http_status r = 401)
       \<and> (js_error.name err = ''TokenExpiredError'' \<longrightarrow> http_status r = 401)"
  using assms
  by (auto simp: errorHandler_def Let_def later_check_matches_def split: if_splits)

lemma errorHandler_cast:
  assumes "errorHandler err req node_env now = Inr r" "js_error.name err = ''CastError''"
  shows "http_status r = 400"
  using assms
  by (auto simp: errorHandler_def Let_def split: if_splits)

lemma errorHandler_rate_limit:
  assumes "errorHandler err req node_env now = Inr r" "js_error.status err = Some 429"
     "js_error.name err \<noteq> ''CastError''"
  shows "http_status r = 429"
  using assms
  by (auto simp: errorHandler_def Let_def split: if_splits)

lemma errorHandler_upload:
  assumes "errorHandler err req node_env now = Inr r" 
    "js_error.code err = Some ''LIMIT_FILE_SIZE'' \<or> js_error.code err = Some ''LIMIT_UNEXPECTED_FILE''"
    "js_error.status err \<noteq> Some 429"
  shows "http_status r = 400"
  using assms
  by (auto simp: errorHandler_def Let_def split: if_splits)

lemma errorHandler_other:
  assumes "errorHandler err req node_env now = Inr r" "\<not> later_check_matches err"
    "js_error.name err \<notin> {''SequelizeValidationError'', ''SequelizeUniqueConstraintError'',
        ''SequelizeForeignKeyConstraintError'', ''JsonWebTokenError'', ''TokenExpiredError'',
        ''CastError''}"
  shows "http_status r = or_code (js_error.statusCode err) 500"
  using assms
  by (auto simp: errorHandler_def Let_def later_check_matches_def split: if_splits)

text \<open>
  Claim C9, as the code has it. When \<^verbatim>\<open>err.errors\<close> is absent on an ORM validation or
  unique-constraint error the handler throws. Otherwise it sends a response with
  \<open>success = False\<close> and a non-empty message, and its status is: 400 for a \<open>CastError\<close>;
  else 429 for an error with status 429; else 400 for the two upload codes; else, by name,
  400, 409, 400, 401 and 401 for the three ORM errors and the two token errors; else the
  error's own status code when it has a non-zero one, and 500 when it has none.
\<close>

theorem C9_error_translation:
  "if (js_error.name err = ''SequelizeValidationError''
       \<or> js_error.name err = ''SequelizeUniqueConstraintError'') \<and> js_error.errors err = None
   then errorHandler err req node_env now = Inl TypeError
   else \<exists>r. errorHandler err req node_env now = Inr r
          \<and> success r = False \<and> response.message r \<noteq> []
          \<and> (\<not> later_check_matches err \<longrightarrow>
                (js_error.name err = ''SequelizeValidationError'' \<longrightarrow> http_status r = 400)
              \<and> (js_error.name err = ''SequelizeUniqueConstraintError'' \<longrightarrow> http_status r = 409)
              \<and> (js_error.name err = ''SequelizeForeignKeyConstraintError''
                    \<longrightarrow> http_status r = 400)
              \<and> (js_error.name err = ''JsonWebTokenError'' \<longrightarrow> http_status r = 401)
              \<and> (js_error.name err = ''TokenExpiredError'' \<longrightarrow> http_status r = 401))
          \<and> (js_error.name err = ''CastError'' \<longrightarrow> http_status r = 400)
          \<and> (js_error.status err = Some 429 \<longrightarrow> js_error.name err \<noteq> ''CastError''
                \<longrightarrow> http_status r = 429)
          \<and> (js_error.code err = Some ''LIMIT_FILE_SIZE''
                \<or> js_error.code err = Some ''LIMIT_UNEXPECTED_FILE''
                \<longrightarrow> js_error.status err \<noteq> Some 429 \<longrightarrow> http_status r = 400)
          \<and> (\<not> later_check_matches err \<longrightarrow>
                js_error.name err \<notin> {''SequelizeValidationError'',
                  ''SequelizeUniqueConstraintError'', ''SequelizeForeignKeyConstraintError'',
                  ''JsonWebTokenError'', ''TokenExpiredError'', ''CastError''} \<longrightarrow>
                http_status r = (case js_error.statusCode err of
                                   None \<Rightarrow> 500
                                 | Some c \<Rightarrow> if c = 0 then 500 else c))"
proof (cases "(js_error.name err = ''SequelizeValidationError''
       \<or> js_error.name err = ''SequelizeUniqueConstraintError'') \<and> js_error.errors err = None")
  case True
  then show ?thesis
    using errorHandler_throws [of err req node_env now] by simp
next
  case False
  then obtain r where r: "errorHandler err req node_env now = Inr r"
    using errorHandler_responds [of err req node_env now] by blast
  have other: "or_code (js_error.statusCode err) 500
      = (case js_error.statusCode err of None \<Rightarrow> 500 | Some c \<Rightarrow> if c = 0 then 500 else c)"
    by (cases "js_error.statusCode err") auto
  note facts = errorHandler_envelope [OF r] errorHandler_by_name [OF r]
    errorHandler_cast [OF r] errorHandler_rate_limit [OF r] errorHandler_upload [OF r]
    errorHandler_other [OF r]
  have "success r = False \<and> response.message r \<noteq> []"
    using facts(1) .
  moreover have "\<not> later_check_matches err \<longrightarrow>
                (js_error.name err = ''SequelizeValidationError'' \<longrightarrow> http_status r = 400)
              \<and> (js_error.name err = ''SequelizeUniqueConstraintError'' \<longrightarrow> http_status r = 409)
              \<and> (js_error.name err = ''SequelizeForeignKeyConstraintError''
                    \<longrightarrow> http_status r = 400)
              \<and> (js_error.name err = ''JsonWebTokenError'' \<longrightarrow> http_status r = 401)
              \<and> (js_error.name err = ''TokenExpiredError'' \<longrightarrow> http_status r = 401)"
    using facts(2) by blast
  moreover have "js_error.name err = ''CastError'' \<longrightarrow> http_status r = 400"
    using facts(3) by blast
  moreover have "js_error.status err = Some 429 \<longrightarrow> js_error.name err \<noteq> ''CastError''
                \<longrightarrow> http_status r = 429"
    using facts(4) by blast
  moreover have "js_error.code err = Some ''LIMIT_FILE_SIZE''
                \<or> js_error.code err = Some ''LIMIT_UNEXPECTED_FILE''
                \<longrightarrow> js_error.status err \<noteq> Some 429 \<longrightarrow> http_status r = 400"
    using facts(5) by blast
  moreover have "\<not> later_check_matches err \<longrightarrow>
                js_error.name err \<notin> {''SequelizeValidationError'',
                  ''SequelizeUniqueConstraintError'', ''SequelizeForeignKeyConstraintError'',
                  ''JsonWebTokenError'', ''TokenExpiredError'', ''CastError''} \<longrightarrow>
                http_status r = (case js_error.statusCode err of
                                   None \<Rightarrow> 500
                                 | Some c \<Rightarrow> if c = 0 then 500 else c)"
    using facts(6) other by presburger
  ultimately show ?thesis
    using False r by (simp only: if_False) blast
qed

text \<open>
  A unique-constraint error of the ORM is answered with 409 and a plain error with 500,
  both with \<open>success = False\<close> and a message.
\<close>

theorem C9_error_translation_witness:
  "errorHandler unique_error sample_request (Some ''production'') 1704186000000
     = Inr \<lparr>http_status = 409, success = False,
            message = ''Duplicate Error: invoiceNumber must be unique'',
            stack = None, details = None,
            errors = Some [\<lparr>validation_item.path = Some ''invoiceNumber'',
                             validation_item.message = ''invoiceNumber must be unique'',
                             validation_item.value = JStr ''INV-202401-0001''\<rparr>],
            timestamp = 1704186000000, path = ''/api/payments'', method = ''POST''\<rparr>
   \<and> \<not> later_check_matches unique_error
   \<and> js_error.errors unique_error \<noteq> None
   \<and> errorHandler plain_error sample_request (Some ''production'') 1704186000000
     = Inr \<lparr>http_status = 500, success = False, message = ''connection lost'',
            stack = None, details = None, errors = None,
            timestamp = 1704186000000, path = ''/api/payments'', method = ''POST''\<rparr>"
  using C9_error_translation [of unique_error sample_request "Some ''production''" 1704186000000]
        C9_error_translation [of plain_error sample_request "Some ''production''" 1704186000000]
  by (simp add: unique_error_def plain_error_def sample_request_def errorHandler_def
      later_check_matches_def item_view_def Let_def)

text \<open>
  The claim sends every error outside its list to 500; an error named \<open>CastError\<close> is
  outside the list and is answered with 400.
\<close>

theorem C9_cast_error_counterexample:
  "errorHandler cast_error sample_request (Some ''production'') 1704186000000
     = Inr \<lparr>http_status = 400, success = False, message = ''Invalid ID format'',
            stack = None, details = None, errors = None,
            timestamp = 1704186000000, path = ''/api/payments'', method = ''POST''\<rparr>"
  by (simp add: cast_error_def sample_request_def errorHandler_def Let_def)

end
